theory Spec2Isabelle
  imports Main "HOL-Library.Word"
begin

section \<open>Data model of \<open>chain::transaction\<close>\<close>

text \<open>
  Machine integers are words: \<open>uint8_t\<close>, \<open>uint32_t\<close> and \<open>uint64_t\<close> are 8-, 32- and
  64-bit words, \<open>size_t\<close> is the 64-bit word of an LP64 target. Byte buffers
  (\<open>data_chunk\<close>, \<open>hash_digest\<close>, \<open>short_hash\<close>) are lists of bytes.
\<close>

type_synonym byte = "8 word"
type_synonym data_chunk = "byte list"
type_synonym hash_digest = "byte list"
type_synonym size_t = "64 word"

text \<open>
  \<open>chain::input\<close> and \<open>chain::output\<close> are declared outside \<open>transaction.cpp\<close>; the
  transaction reads the fields below. The output point type \<open>'p\<close> and the script type
  \<open>'s\<close> stay abstract, their member functions (\<open>is_null\<close>, \<open>signature_operations\<close>,
  \<open>serialized_size\<close>) are passed to the functions that call them.
\<close>

record ('p, 's) input =
  previous_output :: 'p
  script :: 's
  sequence :: "32 word"

record 's "output" =
  "value" :: "64 word"
  script :: 's

text \<open>
  The members \<open>sigops_\<close> and \<open>hash_\<close> of the class are the fields \<open>sigops_cache\<close> and
  \<open>hash_cache\<close> (a name cannot end in an underscore here). \<open>hash_\<close> is a shared pointer
  to a digest: \<open>None\<close> is the null pointer.
\<close>

record ('p, 's) transaction =
  version :: "32 word"
  locktime :: "32 word"
  inputs :: "('p, 's) input list"
  outputs :: "'s output list"
  sigops_cache :: size_t
  hash_cache :: "hash_digest option"

text \<open>
  Modelled from the spec: the constants of \<open>constants.hpp\<close>, which is not part of the
  sources at hand. \<open>max_uint64\<close> and \<open>max_size_t\<close> are "the maximum representable
  value" of their types, \<open>max_input_sequence\<close> is "the maximum value sentinel" of the
  32-bit sequence number.
\<close>

definition max_uint64 :: "64 word" where
  "max_uint64 = 0xFFFFFFFFFFFFFFFF"

definition max_size_t :: size_t where
  "max_size_t = 0xFFFFFFFFFFFFFFFF"

definition max_input_sequence :: "32 word" where
  "max_input_sequence = 0xFFFFFFFF"

subsection \<open>Constructors, assignment, validity, reset\<close>

text \<open>\<open>transaction::transaction()\<close>; \<open>hash_\<close> is default-initialised to the null pointer.\<close>

definition transaction_default :: "('p, 's) transaction" where
  "transaction_default =
     \<lparr>version = 0, locktime = 0, inputs = [], outputs = [], sigops_cache = 0,
      hash_cache = None\<rparr>"

text \<open>\<open>transaction::transaction(version, locktime, inputs, outputs)\<close>, both overloads.\<close>

definition transaction_init ::
  "32 word \<Rightarrow> 32 word \<Rightarrow> ('p, 's) input list \<Rightarrow> 's output list \<Rightarrow> ('p, 's) transaction" where
  "transaction_init v l ins outs =
     \<lparr>version = v, locktime = l, inputs = ins, outputs = outs, sigops_cache = 0,
      hash_cache = None\<rparr>"

text \<open>
  \<open>transaction::operator=(transaction&&)\<close>: the state of the destination after the
  assignment. Four members are assigned; the function has no other statement.
\<close>

definition move_assign ::
  "('p, 's) transaction \<Rightarrow> ('p, 's) transaction \<Rightarrow> ('p, 's) transaction" where
  "move_assign this other =
     this\<lparr>version := version other, locktime := locktime other,
          inputs := inputs other, outputs := outputs other\<rparr>"

definition is_valid :: "('p, 's) transaction \<Rightarrow> bool" where
  "is_valid t \<longleftrightarrow>
     (version t \<noteq> 0) \<or> (locktime t \<noteq> 0) \<or> inputs t \<noteq> [] \<or> outputs t \<noteq> []"

text \<open>\<open>transaction::reset\<close>; the mutex only serialises the write to \<open>hash_\<close>.\<close>

definition reset :: "('p, 's) transaction \<Rightarrow> ('p, 's) transaction" where
  "reset t =
     t\<lparr>version := 0, locktime := 0, inputs := [], outputs := [], sigops_cache := 0,
       hash_cache := None\<rparr>"

subsection \<open>Consensus predicates\<close>

text \<open>
  \<open>inputs[0]\<close> is an unchecked \<open>std::vector\<close> access: reading past the end is undefined
  behaviour. The model makes the access explicit, so that a read out of range is a
  result of its own.
\<close>

datatype fault = out_of_range

definition at :: "'a list \<Rightarrow> nat \<Rightarrow> fault + 'a" where
  "at xs i = (if i < length xs then Inr (xs ! i) else Inl out_of_range)"

text \<open>\<open>&&\<close> evaluates its right operand only when the left one is true.\<close>

definition is_coinbase :: "('p \<Rightarrow> bool) \<Rightarrow> ('p, 's) transaction \<Rightarrow> fault + bool" where
  "is_coinbase is_null t =
     (if length (inputs t) = 1
      then (case at (inputs t) 0 of
              Inl e \<Rightarrow> Inl e
            | Inr i \<Rightarrow> Inr (is_null (previous_output i)))
      else Inr False)"

text \<open>
  \<open>min_coinbase_size\<close> and \<open>max_coinbase_size\<close> come from \<open>constants.hpp\<close> and
  \<open>script::serialized_size\<close> from the script class: they are parameters.
\<close>

definition is_invalid_coinbase ::
  "('p \<Rightarrow> bool) \<Rightarrow> ('s \<Rightarrow> bool \<Rightarrow> 64 word) \<Rightarrow> 64 word \<Rightarrow> 64 word \<Rightarrow>
   ('p, 's) transaction \<Rightarrow> fault + bool" where
  "is_invalid_coinbase is_null script_serialized_size min_coinbase_size max_coinbase_size t =
     (case is_coinbase is_null t of
        Inl e \<Rightarrow> Inl e
      | Inr c \<Rightarrow>
          if \<not> c then Inr False
          else (case at (inputs t) 0 of
                  Inl e \<Rightarrow> Inl e
                | Inr i \<Rightarrow>
                    (let script_size = script_serialized_size (input.script i) False
                     in Inr (script_size < min_coinbase_size \<or> script_size > max_coinbase_size))))"

text \<open>The loop of \<open>is_invalid_non_coinbase\<close>, returning at the first null reference.\<close>

fun null_previous_output :: "('p \<Rightarrow> bool) \<Rightarrow> ('p, 's) input list \<Rightarrow> bool" where
  "null_previous_output is_null [] = False"
| "null_previous_output is_null (i # rest) =
     (if is_null (previous_output i) then True else null_previous_output is_null rest)"

definition is_invalid_non_coinbase ::
  "('p \<Rightarrow> bool) \<Rightarrow> ('p, 's) transaction \<Rightarrow> fault + bool" where
  "is_invalid_non_coinbase is_null t =
     (case is_coinbase is_null t of
        Inl e \<Rightarrow> Inl e
      | Inr c \<Rightarrow> if c then Inr False else Inr (null_previous_output is_null (inputs t)))"

text \<open>
  Modelled from the spec: \<open>input::is_final\<close>, defined in \<open>input.cpp\<close>: an input
  "reports itself final" when its "sequence number [is] at the maximum value sentinel".
\<close>

definition input_is_final :: "('p, 's) input \<Rightarrow> bool" where
  "input_is_final i \<longleftrightarrow> sequence i = max_input_sequence"

text \<open>The loop of \<open>is_final\<close>, returning at the first input that is not final.\<close>

fun inputs_final :: "('p, 's) input list \<Rightarrow> bool" where
  "inputs_final [] = True"
| "inputs_final (i # rest) = (if \<not> input_is_final i then False else inputs_final rest)"

text \<open>
  \<open>transaction::is_final\<close>. \<open>locktime_threshold\<close> is a 32-bit constant of
  \<open>constants.hpp\<close>, a parameter here. \<open>max_locktime\<close> has the type of \<open>block_time\<close>,
  and \<open>static_cast<uint32_t>(block_height)\<close> keeps the low 32 bits of the height.
\<close>

definition is_final ::
  "32 word \<Rightarrow> ('p, 's) transaction \<Rightarrow> 64 word \<Rightarrow> 32 word \<Rightarrow> bool" where
  "is_final locktime_threshold t block_height block_time =
     (if locktime t = 0 then True
      else
        (let max_locktime = block_time;
             max_locktime =
               (if locktime t < locktime_threshold then (ucast block_height :: 32 word)
                else max_locktime)
         in if locktime t < max_locktime then True else inputs_final (inputs t)))"

text \<open>
  The rule as the specification words it, for comparison: the basis is the block height
  itself, a 64-bit value.
\<close>

definition is_final_spec ::
  "32 word \<Rightarrow> ('p, 's) transaction \<Rightarrow> 64 word \<Rightarrow> 32 word \<Rightarrow> bool" where
  "is_final_spec locktime_threshold t block_height block_time =
     (if locktime t = 0 then True
      else if locktime t < locktime_threshold
      then (if unat (locktime t) < unat block_height then True
            else list_all input_is_final (inputs t))
      else (if locktime t < block_time then True
            else list_all input_is_final (inputs t)))"

text \<open>\<open>transaction::total_output_value\<close>: \<open>std::accumulate\<close> is a left fold.\<close>

definition total_output_value :: "('p, 's) transaction \<Rightarrow> 64 word" where
  "total_output_value t =
     foldl (\<lambda>total out.
              (let v = value out
               in if total \<ge> max_uint64 - v then max_uint64 else total + v))
       0 (outputs t)"

text \<open>
  \<open>transaction::signature_operations\<close>. The function is \<open>const\<close> and
  \<open>std::accumulate\<close> takes its initial value by value and returns the total: both
  calls start from \<open>sigops_\<close>, their results are not stored, and \<open>sigops_\<close> is returned
  as it was.
\<close>

definition sigops_in :: "('s \<Rightarrow> bool \<Rightarrow> size_t) \<Rightarrow> size_t \<Rightarrow> ('p, 's) input \<Rightarrow> size_t" where
  "sigops_in script_signature_operations =
     (\<lambda>total i.
        (let count = script_signature_operations (input.script i) False
         in if total \<ge> max_size_t - count then max_size_t else total + count))"

definition sigops_out :: "('s \<Rightarrow> bool \<Rightarrow> size_t) \<Rightarrow> size_t \<Rightarrow> 's output \<Rightarrow> size_t" where
  "sigops_out script_signature_operations =
     (\<lambda>total out.
        (let count = script_signature_operations (output.script out) False
         in if total \<ge> max_size_t - count then max_size_t else total + count))"

definition signature_operations ::
  "('s \<Rightarrow> bool \<Rightarrow> size_t) \<Rightarrow> ('p, 's) transaction \<Rightarrow> size_t" where
  "signature_operations script_signature_operations t =
     (if sigops_cache t \<noteq> 0 then sigops_cache t
      else
        (let discarded_in =
               foldl (sigops_in script_signature_operations) (sigops_cache t) (inputs t);
             discarded_out =
               foldl (sigops_out script_signature_operations) (sigops_cache t) (outputs t)
         in sigops_cache t))"

text \<open>
  The count as the specification words it, for comparison: the saturating sum over all
  input scripts and then all output scripts.
\<close>

definition signature_operations_spec ::
  "('s \<Rightarrow> bool \<Rightarrow> size_t) \<Rightarrow> ('p, 's) transaction \<Rightarrow> size_t" where
  "signature_operations_spec script_signature_operations t =
     foldl (sigops_out script_signature_operations)
       (foldl (sigops_in script_signature_operations) 0 (inputs t)) (outputs t)"

section \<open>Wire format\<close>

subsection \<open>The binary cursor\<close>

text \<open>
  Modelled from the spec: the reader behind \<open>reader& source\<close> (\<open>istream_reader\<close>,
  \<open>container_source\<close>), which is not part of the sources at hand: "a binary cursor
  that can fail and report exhaustion", with \<open>read_4_bytes_little_endian()\<close>,
  \<open>read_variable_uint_little_endian()\<close> and "a boolean/validity conversion signaling
  exhaustion or malformed input". The cursor is the bytes not yet read and the state of
  the stream; a read that needs more bytes than are left, or that starts on a failed
  stream, fails the stream. What such a read returns is not used by \<open>from_data\<close>.
\<close>

record reader =
  unread :: data_chunk
  good :: bool

text \<open>
  Modelled from the spec: the little-endian reading of a byte string as a number
  ("all integers little-endian"), and the \<open>n\<close> little-endian bytes of a number.
\<close>

fun from_little_endian :: "byte list \<Rightarrow> nat" where
  "from_little_endian [] = 0"
| "from_little_endian (b # bs) = unat b + 256 * from_little_endian bs"

fun to_little_endian :: "nat \<Rightarrow> nat \<Rightarrow> byte list" where
  "to_little_endian 0 v = []"
| "to_little_endian (Suc n) v = of_nat (v mod 256) # to_little_endian n (v div 256)"

text \<open>
  Modelled from the spec: a read of \<open>n\<close> bytes from the cursor, which "can fail and
  report exhaustion".
\<close>

definition read_little_endian :: "nat \<Rightarrow> reader \<Rightarrow> nat \<times> reader" where
  "read_little_endian n r =
     (if good r \<and> n \<le> length (unread r)
      then (from_little_endian (take n (unread r)), r\<lparr>unread := drop n (unread r)\<rparr>)
      else (0, r\<lparr>good := False\<rparr>))"

text \<open>Modelled from the spec: \<open>reader::read_4_bytes_little_endian()\<close>.\<close>

definition read_4_bytes_little_endian :: "reader \<Rightarrow> 32 word \<times> reader" where
  "read_4_bytes_little_endian r =
     (case read_little_endian 4 r of (v, r') \<Rightarrow> (of_nat v, r'))"

text \<open>
  Modelled from the spec: \<open>reader::read_variable_uint_little_endian()\<close>, which reads
  an integer in the "standard compact-size convention": "single byte for
  small values, size-prefixed wider encodings for larger values", where "the first byte
  determines whether 1, 3, 5, or 9 bytes encode the value"; the prefixes are \<open>0xfd\<close>,
  \<open>0xfe\<close> and \<open>0xff\<close>.
\<close>

definition read_variable_uint_little_endian :: "reader \<Rightarrow> 64 word \<times> reader" where
  "read_variable_uint_little_endian r =
     (case read_little_endian 1 r of (first, r1) \<Rightarrow>
        if first = 0xff then (case read_little_endian 8 r1 of (v, r2) \<Rightarrow> (of_nat v, r2))
        else if first = 0xfe then (case read_little_endian 4 r1 of (v, r2) \<Rightarrow> (of_nat v, r2))
        else if first = 0xfd then (case read_little_endian 2 r1 of (v, r2) \<Rightarrow> (of_nat v, r2))
        else (of_nat first, r1))"

text \<open>
  Modelled from the spec: \<open>writer::write_4_bytes_little_endian\<close> of the writer behind
  \<open>writer& sink\<close> ("symmetric \<open>write_*\<close> methods"), given as the bytes that the
  call appends to the sink.
\<close>

definition write_4_bytes_little_endian :: "32 word \<Rightarrow> data_chunk" where
  "write_4_bytes_little_endian v = to_little_endian 4 (unat v)"

text \<open>
  Modelled from the spec: \<open>writer::write_variable_uint_little_endian\<close>, the bytes of
  the compact-size encoding: the shortest of the four forms that holds the value.
\<close>

definition write_variable_uint_little_endian :: "64 word \<Rightarrow> data_chunk" where
  "write_variable_uint_little_endian v =
     (if v < 0xfd then to_little_endian 1 (unat v)
      else if v \<le> 0xffff then 0xfd # to_little_endian 2 (unat v)
      else if v \<le> 0xffffffff then 0xfe # to_little_endian 4 (unat v)
      else 0xff # to_little_endian 8 (unat v))"

text \<open>
  Modelled from the spec: \<open>variable_uint_size\<close>, the "compact-size overhead" of a
  count: the number of bytes, 1, 3, 5 or 9, of its encoding.
\<close>

definition variable_uint_size :: "64 word \<Rightarrow> 64 word" where
  "variable_uint_size v =
     (if v < 0xfd then 1
      else if v \<le> 0xffff then 3
      else if v \<le> 0xffffffff then 5
      else 9)"

subsection \<open>Inputs and outputs on the wire\<close>

text \<open>
  The wire format of an input and of an output belongs to \<open>input.cpp\<close> and
  \<open>output.cpp\<close>. The transaction calls the members collected here:
  the default constructor (for \<open>resize\<close>), \<open>from_data(reader&)\<close>, which fills the
  element in place and returns a flag, \<open>to_data(writer&)\<close>, given as the bytes it
  appends, and \<open>serialized_size()\<close>. With them comes \<open>max_size()\<close> of the vector of
  inputs and of the vector of outputs, which the library derives from the size of an
  element.
\<close>

record ('p, 's) elements =
  input_default :: "('p, 's) input"
  input_from_data :: "reader \<Rightarrow> ('p, 's) input \<Rightarrow> bool \<times> ('p, 's) input \<times> reader"
  input_to_data :: "('p, 's) input \<Rightarrow> data_chunk"
  input_serialized_size :: "('p, 's) input \<Rightarrow> 64 word"
  input_max_size :: nat
  output_default :: "'s output"
  output_from_data :: "reader \<Rightarrow> 's output \<Rightarrow> bool \<times> 's output \<times> reader"
  output_to_data :: "'s output \<Rightarrow> data_chunk"
  output_serialized_size :: "'s output \<Rightarrow> 64 word"
  output_max_size :: nat

subsection \<open>Deserialization\<close>

text \<open>
  \<open>std::vector::resize(n)\<close>: a count above \<open>max_size()\<close> leaves the call by the
  exception \<open>std::length_error\<close>, with the vector as it was; otherwise the vector is cut
  or filled with default elements to the length \<open>n\<close>. \<open>transaction.cpp\<close> has no
  \<open>try\<close> block, so the exception leaves \<open>from_data\<close> as well. (Running out of memory
  below \<open>max_size()\<close> leaves the call in the same way, by \<open>std::bad_alloc\<close>; when that
  happens depends on the machine, and it is not part of this model.)
\<close>

datatype exception = length_error

definition resize :: "nat \<Rightarrow> 'a list \<Rightarrow> nat \<Rightarrow> 'a \<Rightarrow> exception + 'a list" where
  "resize max_size xs n d =
     (if n > max_size then Inl length_error
      else Inr (take n xs @ replicate (n - length xs) d))"

text \<open>
  The two range-for loops of \<open>from_data\<close>: each element is filled from the source, the
  loop breaks at the first failure, and \<open>result\<close> keeps its value when there is no
  element.
\<close>

fun from_data_loop ::
  "(reader \<Rightarrow> 'e \<Rightarrow> bool \<times> 'e \<times> reader) \<Rightarrow> bool \<Rightarrow> 'e list \<Rightarrow> reader \<Rightarrow> bool \<times> 'e list \<times> reader" where
  "from_data_loop f result [] source = (result, [], source)"
| "from_data_loop f result (x # xs) source =
     (case f source x of (result', x', source') \<Rightarrow>
        if \<not> result' then (result', x' # xs, source')
        else (case from_data_loop f result' xs source' of
                (result'', xs', source'') \<Rightarrow> (result'', x' # xs', source'')))"

text \<open>
  \<open>transaction::from_data(reader&)\<close>. When the function returns, the outcome is
  \<open>Inr\<close> of the flag returned, the transaction and the cursor afterwards; when an
  exception leaves it, the outcome is \<open>Inl\<close> of the exception, the transaction as the
  exception leaves it and the cursor. The overloads on a \<open>data_chunk\<close> and on a stream
  wrap their argument in a reader and call this one.
\<close>

definition from_data ::
  "('p, 's) elements \<Rightarrow> reader \<Rightarrow> ('p, 's) transaction \<Rightarrow>
   (exception \<times> ('p, 's) transaction \<times> reader) + (bool \<times> ('p, 's) transaction \<times> reader)" where
  "from_data el source0 t0 =
     (let t = reset t0;
          (v, source) = read_4_bytes_little_endian source0;
          t = t\<lparr>version := v\<rparr>;
          result = good source
      in case
           (if result then
              (let (tx_in_count, source) = read_variable_uint_little_endian source;
                   result = good source
               in if result then
                    (case resize (input_max_size el) (inputs t) (unat tx_in_count)
                            (input_default el) of
                       Inl e \<Rightarrow> Inl (e, t, source)
                     | Inr resized \<Rightarrow>
                         (let (result, ins, source) =
                                from_data_loop (input_from_data el) result resized source
                          in Inr (result, t\<lparr>inputs := ins\<rparr>, source)))
                  else Inr (result, t, source))
            else Inr (result, t, source))
         of
           Inl thrown \<Rightarrow> Inl thrown
         | Inr (result, t, source) \<Rightarrow>
             (case
                (if result then
                   (let (tx_out_count, source) = read_variable_uint_little_endian source;
                        result = good source
                    in if result then
                         (case resize (output_max_size el) (outputs t) (unat tx_out_count)
                                 (output_default el) of
                            Inl e \<Rightarrow> Inl (e, t, source)
                          | Inr resized \<Rightarrow>
                              (let (result, outs, source) =
                                     from_data_loop (output_from_data el) result resized source
                               in Inr (result, t\<lparr>outputs := outs\<rparr>, source)))
                       else Inr (result, t, source))
                 else Inr (result, t, source))
              of
                Inl thrown \<Rightarrow> Inl thrown
              | Inr (result, t, source) \<Rightarrow>
                  (let (result, t, source) =
                         (if result then
                            (let (l, source) = read_4_bytes_little_endian source
                             in (good source, t\<lparr>locktime := l\<rparr>, source))
                          else (result, t, source));
                       t = (if \<not> result then reset t else t)
                   in Inr (result, t, source))))"

text \<open>\<open>transaction::from_data(const data_chunk&)\<close>.\<close>

definition from_data_chunk ::
  "('p, 's) elements \<Rightarrow> data_chunk \<Rightarrow> ('p, 's) transaction \<Rightarrow>
   (exception \<times> ('p, 's) transaction) + (bool \<times> ('p, 's) transaction)" where
  "from_data_chunk el data t =
     (case from_data el \<lparr>unread = data, good = True\<rparr> t of
        Inl (e, t', source) \<Rightarrow> Inl (e, t')
      | Inr (result, t', source) \<Rightarrow> Inr (result, t'))"

text \<open>
  The contract of an element parser on one run of a loop of \<open>from_data\<close>, for the
  round trip: each parse that the loop performs and that succeeds has consumed exactly
  the bytes that \<open>to_data\<close> writes for the element it produced. (This is a condition
  on the bytes of one source, not a part of the program.)
\<close>

fun parses_exact ::
  "(reader \<Rightarrow> 'e \<Rightarrow> bool \<times> 'e \<times> reader) \<Rightarrow> ('e \<Rightarrow> data_chunk) \<Rightarrow> 'e list \<Rightarrow> reader \<Rightarrow> bool" where
  "parses_exact f enc [] source = True"
| "parses_exact f enc (x # xs) source =
     (case f source x of (result, x', source') \<Rightarrow>
        if \<not> result then True
        else unread source = enc x' @ unread source' \<and> parses_exact f enc xs source')"

subsection \<open>Serialization\<close>

text \<open>
  \<open>transaction::to_data\<close>: the bytes written to the sink, which the byte-buffer overload
  returns as its \<open>data_chunk\<close>. \<open>inputs.size()\<close> is converted to the 64-bit argument of
  the writer.
\<close>

definition to_data :: "('p, 's) elements \<Rightarrow> ('p, 's) transaction \<Rightarrow> data_chunk" where
  "to_data el t =
     write_4_bytes_little_endian (version t)
     @ write_variable_uint_little_endian (of_nat (length (inputs t)))
     @ concat (map (input_to_data el) (inputs t))
     @ write_variable_uint_little_endian (of_nat (length (outputs t)))
     @ concat (map (output_to_data el) (outputs t))
     @ write_4_bytes_little_endian (locktime t)"

definition serialized_size :: "('p, 's) elements \<Rightarrow> ('p, 's) transaction \<Rightarrow> 64 word" where
  "serialized_size el t =
     (let tx_size = 8;
          tx_size = tx_size + variable_uint_size (of_nat (length (inputs t)));
          tx_size = foldl (\<lambda>tx_size i. tx_size + input_serialized_size el i) tx_size (inputs t);
          tx_size = tx_size + variable_uint_size (of_nat (length (outputs t)));
          tx_size = foldl (\<lambda>tx_size out. tx_size + output_serialized_size el out) tx_size (outputs t)
      in tx_size)"

subsection \<open>Identity hash\<close>

text \<open>
  \<open>transaction::hash()\<close>: the digest returned and the transaction afterwards (the cache
  is filled on the first call). \<open>bitcoin_hash\<close> is a parameter. The upgradeable lock
  orders concurrent callers; one call alone runs as written here.
\<close>

definition hash ::
  "(data_chunk \<Rightarrow> hash_digest) \<Rightarrow> ('p, 's) elements \<Rightarrow> ('p, 's) transaction \<Rightarrow>
   hash_digest \<times> ('p, 's) transaction" where
  "hash bitcoin_hash el t =
     (case hash_cache t of
        None \<Rightarrow> (let h = bitcoin_hash (to_data el t) in (h, t\<lparr>hash_cache := Some h\<rparr>))
      | Some h \<Rightarrow> (h, t))"

section \<open>Data model of \<open>wallet::payment_address\<close>\<close>

text \<open>
  The members \<open>valid_\<close>, \<open>version_\<close> and \<open>hash_\<close>; the accessors \<open>version()\<close> and
  \<open>hash()\<close> return the last two. \<open>short_hash\<close> is an array of \<open>short_hash_size\<close> bytes.
\<close>

record payment_address =
  addr_valid :: bool
  addr_version :: byte
  addr_hash :: "byte list"

text \<open>
  Modelled from the spec: \<open>short_hash_size\<close>, a constant of \<open>math/hash.hpp\<close>: the
  "20-byte short hash".
\<close>

definition short_hash_size :: nat where
  "short_hash_size = 20"

text \<open>
  Modelled from the spec: \<open>operator==\<close> on addresses, declared in the header and defined in
  \<open>payment_address.cpp\<close>: "equality is defined purely on \<open>(version, hash)\<close>".
\<close>

definition payment_address_eq :: "payment_address \<Rightarrow> payment_address \<Rightarrow> bool" where
  "payment_address_eq left right \<longleftrightarrow>
     addr_version left = addr_version right \<and> addr_hash left = addr_hash right"

text \<open>
  \<open>std::string::resize(n)\<close> for a length within \<open>max_size()\<close> of the string, as the 21
  characters of the buffer below are.
\<close>

definition string_resize :: "'a list \<Rightarrow> nat \<Rightarrow> 'a \<Rightarrow> 'a list" where
  "string_resize xs n d = take n xs @ replicate (n - length xs) d"

text \<open>
  \<open>std::copy(first, last, d_first)\<close> into a buffer that has room for the range.
\<close>

definition copy :: "'a list \<Rightarrow> 'a list \<Rightarrow> nat \<Rightarrow> 'a list" where
  "copy src dst pos = take pos dst @ src @ drop (pos + length src) dst"

text \<open>
  \<open>std::hash<payment_address>::operator()\<close>: the string \<open>buffer\<close> it builds, and the key,
  which is \<open>std::hash<std::string>\<close> (the parameter \<open>functor\<close>) of that string.
\<close>

definition address_buffer :: "payment_address \<Rightarrow> byte list" where
  "address_buffer address =
     (let buffer = string_resize [] (short_hash_size + 1) 0;
          buffer = buffer[0 := addr_version address];
          h = addr_hash address;
          buffer = copy h buffer 1
      in buffer)"

definition std_hash :: "(byte list \<Rightarrow> size_t) \<Rightarrow> payment_address \<Rightarrow> size_t" where
  "std_hash functor address = functor (address_buffer address)"

section \<open>A concrete instance of the element wire formats\<close>

text \<open>
  To run \<open>from_data\<close> and \<open>to_data\<close> on concrete bytes the members of \<open>input\<close> and
  \<open>output\<close> need an instance. In this one the output point and the script are empty, an
  input is written as its 4-byte sequence number and an output as its 8-byte value.
  \<open>max_size()\<close> is \<open>2^63 - 1\<close>, the bound that the library gives a vector of one-byte
  elements on a 64-bit target; a vector of larger elements has a smaller one.
\<close>

definition example_elements :: "(unit, unit) elements" where
  "example_elements =
     \<lparr>input_default = \<lparr>previous_output = (), script = (), sequence = 0\<rparr>,
      input_from_data =
        (\<lambda>source i. case read_4_bytes_little_endian source of
                       (v, source') \<Rightarrow> (good source', i\<lparr>sequence := v\<rparr>, source')),
      input_to_data = (\<lambda>i. write_4_bytes_little_endian (sequence i)),
      input_serialized_size = (\<lambda>i. 4),
      input_max_size = 2 ^ 63 - 1,
      output_default = \<lparr>value = 0, script = ()\<rparr>,
      output_from_data =
        (\<lambda>source out. case read_little_endian 8 source of
                         (v, source') \<Rightarrow> (good source', out\<lparr>value := of_nat v\<rparr>, source')),
      output_to_data = (\<lambda>out. to_little_endian 8 (unat (value out))),
      output_serialized_size = (\<lambda>out. 8),
      output_max_size = 2 ^ 63 - 1\<rparr>"

section \<open>Reset and validity\<close>

text \<open>
  C8. \<open>reset()\<close> applied twice gives the state that one application gives, \<open>is_valid()\<close>
  is false right after \<open>reset()\<close>, and the reset state has version 0, locktime 0 and
  empty input and output sequences.
\<close>

theorem reset_idempotent:
  "reset (reset t) = reset t \<and> \<not> is_valid (reset t) \<and>
   version (reset t) = 0 \<and> locktime (reset t) = 0 \<and> inputs (reset t) = [] \<and>
   outputs (reset t) = []"
  by (simp add: reset_def is_valid_def)

text \<open>The same on a transaction with a cached hash and a cached count.\<close>

theorem reset_idempotent_witness:
  "reset (reset \<lparr>version = 1, locktime = 7,
      inputs = [\<lparr>previous_output = True, script = (), sequence = 3\<rparr>],
      outputs = [\<lparr>value = 50, script = ()\<rparr>], sigops_cache = 4,
      hash_cache = Some [0xAB]\<rparr>) =
   reset \<lparr>version = 1, locktime = 7,
      inputs = [\<lparr>previous_output = True, script = (), sequence = 3\<rparr>],
      outputs = [\<lparr>value = 50, script = ()\<rparr>], sigops_cache = 4,
      hash_cache = Some [0xAB]\<rparr> \<and>
   \<not> is_valid (reset \<lparr>version = 1, locktime = 7,
      inputs = [\<lparr>previous_output = True, script = (), sequence = 3\<rparr>],
      outputs = [\<lparr>value = 50, script = ()\<rparr>], sigops_cache = 4,
      hash_cache = Some [0xAB]\<rparr>)"
  using reset_idempotent [of "\<lparr>version = 1, locktime = 7,
      inputs = [\<lparr>previous_output = True, script = (), sequence = 3\<rparr>],
      outputs = [\<lparr>value = 50, script = ()\<rparr>], sigops_cache = 4,
      hash_cache = Some [0xAB]\<rparr>"]
  by blast

section \<open>Coinbase predicates\<close>

lemma is_coinbase_eq:
  "is_coinbase is_null t =
     Inr (length (inputs t) = 1 \<and> is_null (previous_output (hd (inputs t))))"
  by (cases "inputs t") (simp_all add: is_coinbase_def at_def)

lemma null_previous_output_iff:
  "null_previous_output is_null xs \<longleftrightarrow> (\<exists>i \<in> set xs. is_null (previous_output i))"
  by (induction xs) auto

text \<open>
  C7. \<open>is_coinbase\<close> and \<open>is_invalid_non_coinbase\<close> are never both true, and
  \<open>is_invalid_non_coinbase\<close> is true exactly when the transaction is not a coinbase and
  some input has a null previous-output reference. (It always returns one of the two
  truth values.)
\<close>

theorem coinbase_exclusive:
  "\<not> (is_coinbase is_null t = Inr True \<and> is_invalid_non_coinbase is_null t = Inr True) \<and>
   (is_invalid_non_coinbase is_null t = Inr True \<longleftrightarrow>
      is_coinbase is_null t = Inr False \<and> (\<exists>i \<in> set (inputs t). is_null (previous_output i))) \<and>
   (is_invalid_non_coinbase is_null t = Inr True \<or> is_invalid_non_coinbase is_null t = Inr False)"
  by (auto simp add: is_invalid_non_coinbase_def is_coinbase_eq null_previous_output_iff)

text \<open>
  Two inputs, the second with a null reference (the output point is the flag that
  \<open>is_null\<close> returns): not a coinbase, and an invalid non-coinbase.
\<close>

theorem coinbase_exclusive_witness:
  "is_coinbase (\<lambda>p. p) \<lparr>version = 1, locktime = 0,
      inputs = [\<lparr>previous_output = False, script = (), sequence = 0\<rparr>,
                \<lparr>previous_output = True, script = (), sequence = 0\<rparr>],
      outputs = [], sigops_cache = 0, hash_cache = None\<rparr> = Inr False \<and>
   is_invalid_non_coinbase (\<lambda>p. p) \<lparr>version = 1, locktime = 0,
      inputs = [\<lparr>previous_output = False, script = (), sequence = 0\<rparr>,
                \<lparr>previous_output = True, script = (), sequence = 0\<rparr>],
      outputs = [], sigops_cache = 0, hash_cache = None\<rparr> = Inr True"
  using coinbase_exclusive [of "\<lambda>p. p" "\<lparr>version = 1, locktime = 0,
      inputs = [\<lparr>previous_output = False, script = (), sequence = 0\<rparr>,
                \<lparr>previous_output = True, script = (), sequence = 0\<rparr>],
      outputs = [], sigops_cache = 0, hash_cache = None\<rparr>"]
  by (simp add: is_coinbase_def)

text \<open>
  C10. Neither \<open>is_coinbase\<close> nor \<open>is_invalid_coinbase\<close> reads \<open>inputs[0]\<close> out of range,
  for any transaction; on a transaction without inputs both return false.
\<close>

theorem coinbase_in_bounds:
  "is_coinbase is_null t \<noteq> Inl out_of_range \<and>
   is_invalid_coinbase is_null script_serialized_size lo hi t \<noteq> Inl out_of_range \<and>
   is_coinbase is_null (t\<lparr>inputs := []\<rparr>) = Inr False \<and>
   is_invalid_coinbase is_null script_serialized_size lo hi (t\<lparr>inputs := []\<rparr>) = Inr False"
  apply (simp add: is_invalid_coinbase_def is_coinbase_eq)
  apply (cases "inputs t")
   apply (auto simp add: at_def Let_def)
  done

text \<open>
  A coinbase whose script is one byte long, with the bounds 2 and 100: the script size is
  read from \<open>inputs[0]\<close> and the coinbase is invalid.
\<close>

theorem coinbase_in_bounds_witness:
  "is_invalid_coinbase (\<lambda>p. p) (\<lambda>s prefix. s) 2 100 \<lparr>version = 1, locktime = 0,
      inputs = [\<lparr>previous_output = True, script = 1, sequence = 0xFFFFFFFF\<rparr>],
      outputs = [], sigops_cache = 0, hash_cache = None\<rparr> = Inr True"
  using coinbase_in_bounds [of "\<lambda>p. p" "\<lparr>version = 1, locktime = 0,
      inputs = [\<lparr>previous_output = True, script = 1, sequence = 0xFFFFFFFF\<rparr>],
      outputs = [], sigops_cache = 0, hash_cache = None\<rparr>" "\<lambda>s prefix. s" 2 100]
  by (simp add: is_invalid_coinbase_def is_coinbase_def at_def)

section \<open>Serialization and deserialization\<close>

subsection \<open>Little-endian bytes and the cursor\<close>

lemma from_little_endian_bound: "from_little_endian bs < 256 ^ length bs"
proof (induction bs)
  case Nil
  show ?case by simp
next
  case (Cons b bs)
  have "unat b < 256" using unsigned_less [of b, where ?'a = nat] by simp
  with Cons show ?case by simp
qed

lemma length_to_little_endian [simp]: "length (to_little_endian n v) = n"
  by (induction n arbitrary: v) simp_all

lemma to_from_little_endian:
  "to_little_endian (length bs) (from_little_endian bs) = bs"
proof (induction bs)
  case Nil
  show ?case by simp
next
  case (Cons b bs)
  have b: "unat b < 256" using unsigned_less [of b, where ?'a = nat] by simp
  then have "(unat b + 256 * from_little_endian bs) mod 256 = unat b" by simp
  moreover have "(unat b + 256 * from_little_endian bs) div 256 = from_little_endian bs"
    using b by simp
  ultimately show ?case using Cons by simp
qed

lemma read_little_endian_good:
  assumes "read_little_endian n r = (v, r')" and "good r'"
  shows "good r \<and> unread r = to_little_endian n v @ unread r' \<and> v < 256 ^ n"
proof -
  from assms have ok: "good r" "n \<le> length (unread r)"
    by (auto simp add: read_little_endian_def split: if_splits)
  with assms have v: "v = from_little_endian (take n (unread r))"
    and r': "unread r' = drop n (unread r)"
    by (auto simp add: read_little_endian_def)
  have len: "length (take n (unread r)) = n" using ok by simp
  have "to_little_endian n v = take n (unread r)"
    using to_from_little_endian [of "take n (unread r)"] len v by simp
  moreover have "v < 256 ^ n"
    using from_little_endian_bound [of "take n (unread r)"] len v by simp
  ultimately show ?thesis using ok r' by simp
qed

lemma read_4_bytes_little_endian_good:
  assumes "read_4_bytes_little_endian r = (v, r')" and "good r'"
  shows "unread r = write_4_bytes_little_endian v @ unread r'"
proof -
  obtain n where n: "read_little_endian 4 r = (n, r')" and v: "v = of_nat n"
    using assms(1) by (auto simp add: read_4_bytes_little_endian_def split: prod.splits)
  from read_little_endian_good [OF n assms(2)]
  have u: "unread r = to_little_endian 4 n @ unread r'" and b: "n < 256 ^ 4" by simp_all
  have "unat v = n" using b v by (simp add: unat_of_nat take_bit_nat_eq_self)
  then show ?thesis using u by (simp add: write_4_bytes_little_endian_def)
qed


lemma length_write_4 [simp]: "length (write_4_bytes_little_endian v) = 4"
  by (simp add: write_4_bytes_little_endian_def)

lemma length_write_variable_uint:
  "of_nat (length (write_variable_uint_little_endian v)) = variable_uint_size v"
  by (simp add: write_variable_uint_little_endian_def variable_uint_size_def)

subsection \<open>The loops and the steps of \<open>from_data\<close>\<close>

lemma from_data_loop_exact:
  "parses_exact f enc xs0 r \<Longrightarrow> from_data_loop f True xs0 r = (True, xs, r') \<Longrightarrow>
   unread r = concat (map enc xs) @ unread r' \<and> length xs = length xs0"
proof (induction xs0 arbitrary: r xs)
  case Nil
  then show ?case by simp
next
  case (Cons x0 rest)
  obtain ok x s where step: "f r x0 = (ok, x, s)" by (cases "f r x0") auto
  with Cons.prems(2) have ok: "ok" by (auto split: if_splits prod.splits)
  obtain res ys s' where tail: "from_data_loop f True rest s = (res, ys, s')"
    by (cases "from_data_loop f True rest s") auto
  with Cons.prems(2) step ok have eqs: "res" "xs = x # ys" "r' = s'" by auto
  from Cons.prems(1) step ok
  have here: "unread r = enc x @ unread s" and later: "parses_exact f enc rest s" by auto
  from Cons.IH [OF later, of ys] tail eqs
  have "unread s = concat (map enc ys) @ unread r'" "length ys = length rest" by auto
  then show ?case using here eqs by simp
qed

lemma from_data_steps:
  fixes t0 :: "('p, 's) transaction"
  assumes "read_4_bytes_little_endian src = (ver, s1)"
    and "read_variable_uint_little_endian s1 = (n_in, s2)"
    and "from_data_loop (input_from_data el) True
           (replicate (unat n_in) (input_default el)) s2 = (r_in, ins, s3)"
    and "read_variable_uint_little_endian s3 = (n_out, s4)"
    and "from_data_loop (output_from_data el) True
           (replicate (unat n_out) (output_default el)) s4 = (r_out, outs, s5)"
    and "read_4_bytes_little_endian s5 = (lock, s6)"
  shows "from_data el src t0 =
     (if \<not> good s1 then Inr (False, transaction_default, s1)
      else if \<not> good s2 then Inr (False, transaction_default, s2)
      else if unat n_in > input_max_size el
      then Inl (length_error,
                \<lparr>version = ver, locktime = 0, inputs = [], outputs = [],
                 sigops_cache = 0, hash_cache = None\<rparr>, s2)
      else if \<not> r_in then Inr (False, transaction_default, s3)
      else if \<not> good s4 then Inr (False, transaction_default, s4)
      else if unat n_out > output_max_size el
      then Inl (length_error,
                \<lparr>version = ver, locktime = 0, inputs = ins, outputs = [],
                 sigops_cache = 0, hash_cache = None\<rparr>, s4)
      else if \<not> r_out then Inr (False, transaction_default, s5)
      else if \<not> good s6 then Inr (False, transaction_default, s6)
      else Inr (True, \<lparr>version = ver, locktime = lock, inputs = ins, outputs = outs,
                       sigops_cache = 0, hash_cache = None\<rparr>, s6))"
  using assms
  by (simp add: from_data_def Let_def resize_def reset_def transaction_default_def)

text \<open>Whenever \<open>from_data\<close> returns false, it returns with the default transaction.\<close>

lemma from_data_false:
  fixes t0 :: "('p, 's) transaction"
  shows "from_data el src t0 = Inr (False, t, s) \<Longrightarrow> t = transaction_default"
  by (auto simp add: from_data_def Let_def reset_def transaction_default_def resize_def
      split: prod.splits if_splits sum.splits)

subsection \<open>Size\<close>

lemma foldl_sizes:
  fixes acc :: "64 word"
  assumes "\<forall>x \<in> set xs. size_of x = of_nat (length (enc x))"
  shows "foldl (\<lambda>tx_size x. tx_size + size_of x) acc xs =
         acc + of_nat (length (concat (map enc xs)))"
  using assms by (induction xs arbitrary: acc) (simp_all add: algebra_simps)

lemma serialized_size_to_data:
  assumes "\<forall>i \<in> set (inputs t). input_serialized_size el i = of_nat (length (input_to_data el i))"
    and "\<forall>out \<in> set (outputs t).
           output_serialized_size el out = of_nat (length (output_to_data el out))"
  shows "serialized_size el t = of_nat (length (to_data el t))"
proof -
  have i: "foldl (\<lambda>tx_size i. tx_size + input_serialized_size el i) acc (inputs t) =
           acc + of_nat (length (concat (map (input_to_data el) (inputs t))))" for acc
    by (rule foldl_sizes) (rule assms(1))
  have out: "foldl (\<lambda>tx_size out. tx_size + output_serialized_size el out) acc (outputs t) =
           acc + of_nat (length (concat (map (output_to_data el) (outputs t))))" for acc
    by (rule foldl_sizes) (rule assms(2))
  show ?thesis
    unfolding serialized_size_def Let_def i out to_data_def
    by (simp add: length_write_variable_uint [symmetric] del: length_concat)
qed

subsection \<open>Round trip\<close>

lemma to_little_endian_numeral [simp]:
  "to_little_endian (numeral k) v =
     of_nat (v mod 256) # to_little_endian (pred_numeral k) (v div 256)"
  by (simp only: numeral_eq_Suc [of k] to_little_endian.simps)

text \<open>
  Eleven bytes: version 1, no input, no output, locktime 0, and one more byte.
  \<open>from_data\<close> succeeds, since it never asks whether the source is exhausted, and the
  transaction serializes to the first ten bytes.
\<close>

theorem from_data_trailing_bytes:
  "from_data_chunk example_elements [1, 0, 0, 0, 0, 0, 0, 0, 0, 0, 0xFF] transaction_default =
     Inr (True, \<lparr>version = 1, locktime = 0, inputs = [], outputs = [], sigops_cache = 0,
                 hash_cache = None\<rparr>) \<and>
   to_data example_elements
     \<lparr>version = 1, locktime = 0, inputs = [], outputs = [], sigops_cache = 0,
      hash_cache = None\<rparr> \<noteq> [1, 0, 0, 0, 0, 0, 0, 0, 0, 0, 0xFF] \<and>
   serialized_size example_elements
     \<lparr>version = 1, locktime = 0, inputs = [], outputs = [], sigops_cache = 0,
      hash_cache = None\<rparr> \<noteq> of_nat (length [1, 0, 0, 0, 0, 0, 0, 0, 0, 0, 0xFF :: byte])"
  by (simp add: from_data_chunk_def from_data_def Let_def reset_def transaction_default_def
      read_4_bytes_little_endian_def read_variable_uint_little_endian_def
      read_little_endian_def resize_def to_data_def serialized_size_def
      write_4_bytes_little_endian_def write_variable_uint_little_endian_def
      variable_uint_size_def example_elements_def)

text \<open>
  C2, amended. When \<open>serialized_size\<close> of each input and output of a transaction is the
  length of what its \<open>to_data\<close> writes, \<open>serialized_size\<close> of the transaction is the
  length of \<open>to_data\<close>. And when \<open>from_data\<close> succeeds on a source in which both counts
  are encoded as \<open>to_data\<close> writes them and each input and output parsed on the way has
  consumed exactly the bytes that its \<open>to_data\<close> writes, the bytes of the source are
  \<open>to_data\<close> of the parsed transaction followed by the bytes left unread. When nothing is
  left unread, \<open>to_data\<close> gives back the source and \<open>serialized_size\<close> is its length.
\<close>

theorem to_data_from_data:
  fixes el :: "('p, 's) elements" and t t0 T :: "('p, 's) transaction"
  shows
   "((\<forall>i \<in> set (inputs t). input_serialized_size el i = of_nat (length (input_to_data el i))) \<and>
     (\<forall>out \<in> set (outputs t).
        output_serialized_size el out = of_nat (length (output_to_data el out))) \<longrightarrow>
       serialized_size el t = of_nat (length (to_data el t))) \<and>
    (read_4_bytes_little_endian src = (ver, s1) \<and>
     read_variable_uint_little_endian s1 = (n_in, s2) \<and>
     unread s1 = write_variable_uint_little_endian n_in @ unread s2 \<and>
     parses_exact (input_from_data el) (input_to_data el)
       (replicate (unat n_in) (input_default el)) s2 \<and>
     from_data_loop (input_from_data el) True
       (replicate (unat n_in) (input_default el)) s2 = (r_in, ins, s3) \<and>
     read_variable_uint_little_endian s3 = (n_out, s4) \<and>
     unread s3 = write_variable_uint_little_endian n_out @ unread s4 \<and>
     parses_exact (output_from_data el) (output_to_data el)
       (replicate (unat n_out) (output_default el)) s4 \<and>
     from_data el src t0 = Inr (True, T, s') \<longrightarrow>
       unread src = to_data el T @ unread s' \<and>
       (unread s' = [] \<longrightarrow> to_data el T = unread src) \<and>
       (unread s' = [] \<and>
        (\<forall>i \<in> set (inputs T). input_serialized_size el i = of_nat (length (input_to_data el i))) \<and>
        (\<forall>out \<in> set (outputs T).
           output_serialized_size el out = of_nat (length (output_to_data el out))) \<longrightarrow>
          serialized_size el T = of_nat (length (unread src))))"
proof (intro conjI impI)
  assume "(\<forall>i \<in> set (inputs t). input_serialized_size el i = of_nat (length (input_to_data el i))) \<and>
     (\<forall>out \<in> set (outputs t).
        output_serialized_size el out = of_nat (length (output_to_data el out)))"
  then show "serialized_size el t = of_nat (length (to_data el t))"
    by (intro serialized_size_to_data) simp_all
next
  assume h: "read_4_bytes_little_endian src = (ver, s1) \<and>
     read_variable_uint_little_endian s1 = (n_in, s2) \<and>
     unread s1 = write_variable_uint_little_endian n_in @ unread s2 \<and>
     parses_exact (input_from_data el) (input_to_data el)
       (replicate (unat n_in) (input_default el)) s2 \<and>
     from_data_loop (input_from_data el) True
       (replicate (unat n_in) (input_default el)) s2 = (r_in, ins, s3) \<and>
     read_variable_uint_little_endian s3 = (n_out, s4) \<and>
     unread s3 = write_variable_uint_little_endian n_out @ unread s4 \<and>
     parses_exact (output_from_data el) (output_to_data el)
       (replicate (unat n_out) (output_default el)) s4 \<and>
     from_data el src t0 = Inr (True, T, s')"
  obtain r_out outs s5 where lo: "from_data_loop (output_from_data el) True
       (replicate (unat n_out) (output_default el)) s4 = (r_out, outs, s5)"
    by (cases "from_data_loop (output_from_data el) True
       (replicate (unat n_out) (output_default el)) s4") auto
  obtain lock s6 where rl: "read_4_bytes_little_endian s5 = (lock, s6)"
    by (cases "read_4_bytes_little_endian s5") auto
  from h have rv: "read_4_bytes_little_endian src = (ver, s1)"
    and ri: "read_variable_uint_little_endian s1 = (n_in, s2)"
    and ci: "unread s1 = write_variable_uint_little_endian n_in @ unread s2"
    and pi: "parses_exact (input_from_data el) (input_to_data el)
       (replicate (unat n_in) (input_default el)) s2"
    and li: "from_data_loop (input_from_data el) True
       (replicate (unat n_in) (input_default el)) s2 = (r_in, ins, s3)"
    and ro: "read_variable_uint_little_endian s3 = (n_out, s4)"
    and co: "unread s3 = write_variable_uint_little_endian n_out @ unread s4"
    and po: "parses_exact (output_from_data el) (output_to_data el)
       (replicate (unat n_out) (output_default el)) s4"
    and ok: "from_data el src t0 = Inr (True, T, s')"
    by simp_all
  from ok from_data_steps [OF rv ri li ro lo rl, of t0]
  have all: "good s1 \<and> good s2 \<and> r_in \<and> good s4 \<and> r_out \<and> good s6"
    and T: "T = \<lparr>version = ver, locktime = lock, inputs = ins, outputs = outs,
                  sigops_cache = 0, hash_cache = None\<rparr>"
    and s': "s' = s6"
    by (auto split: if_splits)
  have a: "unread src = write_4_bytes_little_endian ver @ unread s1"
    using read_4_bytes_little_endian_good [OF rv] all by simp
  from all li have li': "from_data_loop (input_from_data el) True
       (replicate (unat n_in) (input_default el)) s2 = (True, ins, s3)" by simp
  have b: "unread s2 = concat (map (input_to_data el) ins) @ unread s3"
    and bl: "length ins = unat n_in"
    using from_data_loop_exact [OF pi li'] by simp_all
  from all lo have lo': "from_data_loop (output_from_data el) True
       (replicate (unat n_out) (output_default el)) s4 = (True, outs, s5)" by simp
  have c: "unread s4 = concat (map (output_to_data el) outs) @ unread s5"
    and cl: "length outs = unat n_out"
    using from_data_loop_exact [OF po lo'] by simp_all
  have d: "unread s5 = write_4_bytes_little_endian lock @ unread s6"
    using read_4_bytes_little_endian_good [OF rl] all by simp
  show pre: "unread src = to_data el T @ unread s'"
    by (simp add: to_data_def T s' a ci b co c d bl cl)
  {
    assume "unread s' = []"
    with pre show "to_data el T = unread src" by simp
  }
  assume e: "unread s' = [] \<and>
        (\<forall>i \<in> set (inputs T). input_serialized_size el i = of_nat (length (input_to_data el i))) \<and>
        (\<forall>out \<in> set (outputs T).
           output_serialized_size el out = of_nat (length (output_to_data el out)))"
  then have "serialized_size el T = of_nat (length (to_data el T))"
    by (intro serialized_size_to_data) simp_all
  with pre e show "serialized_size el T = of_nat (length (unread src))" by simp
qed

text \<open>
  Twenty-two bytes holding version 1, one input with sequence \<open>0xFFFFFFFF\<close>, one output
  of value \<open>0x50\<close> and locktime 0 are parsed, and serialized back to the same bytes.
\<close>

theorem to_data_from_data_witness:
  "from_data_chunk example_elements
     [1, 0, 0, 0, 1, 0xFF, 0xFF, 0xFF, 0xFF, 1, 0x50, 0, 0, 0, 0, 0, 0, 0, 0, 0, 0, 0]
     transaction_default =
     Inr (True, \<lparr>version = 1, locktime = 0,
             inputs = [\<lparr>previous_output = (), script = (), sequence = 0xFFFFFFFF\<rparr>],
             outputs = [\<lparr>value = 0x50, script = ()\<rparr>], sigops_cache = 0,
             hash_cache = None\<rparr>) \<and>
   to_data example_elements
     \<lparr>version = 1, locktime = 0,
      inputs = [\<lparr>previous_output = (), script = (), sequence = 0xFFFFFFFF\<rparr>],
      outputs = [\<lparr>value = 0x50, script = ()\<rparr>], sigops_cache = 0, hash_cache = None\<rparr> =
     [1, 0, 0, 0, 1, 0xFF, 0xFF, 0xFF, 0xFF, 1, 0x50, 0, 0, 0, 0, 0, 0, 0, 0, 0, 0, 0] \<and>
   serialized_size example_elements
     \<lparr>version = 1, locktime = 0,
      inputs = [\<lparr>previous_output = (), script = (), sequence = 0xFFFFFFFF\<rparr>],
      outputs = [\<lparr>value = 0x50, script = ()\<rparr>], sigops_cache = 0, hash_cache = None\<rparr> = 22"
proof -
  let ?B = "[1, 0, 0, 0, 1, 0xFF, 0xFF, 0xFF, 0xFF, 1, 0x50, 0, 0, 0, 0, 0, 0, 0, 0, 0, 0, 0] :: data_chunk"
  let ?T = "\<lparr>version = 1, locktime = 0,
      inputs = [\<lparr>previous_output = (), script = (), sequence = 0xFFFFFFFF\<rparr>],
      outputs = [\<lparr>value = 0x50, script = ()\<rparr>], sigops_cache = 0, hash_cache = None\<rparr>
      :: (unit, unit) transaction"
  let ?src = "\<lparr>unread = ?B, good = True\<rparr>"
  let ?s1 = "\<lparr>unread = drop 4 ?B, good = True\<rparr>"
  let ?s2 = "\<lparr>unread = drop 5 ?B, good = True\<rparr>"
  let ?s3 = "\<lparr>unread = drop 9 ?B, good = True\<rparr>"
  let ?s4 = "\<lparr>unread = drop 10 ?B, good = True\<rparr>"
  let ?s' = "\<lparr>unread = [], good = True\<rparr>"
  have rv: "read_4_bytes_little_endian ?src = (1, ?s1)"
    by (simp add: read_4_bytes_little_endian_def read_little_endian_def)
  have ri: "read_variable_uint_little_endian ?s1 = (1, ?s2)"
    by (simp add: read_variable_uint_little_endian_def read_little_endian_def)
  have ci: "unread ?s1 = write_variable_uint_little_endian 1 @ unread ?s2"
    by (simp add: write_variable_uint_little_endian_def)
  have pi: "parses_exact (input_from_data example_elements) (input_to_data example_elements)
      (replicate (unat (1 :: 64 word)) (input_default example_elements)) ?s2"
    by (simp add: example_elements_def read_4_bytes_little_endian_def read_little_endian_def
        write_4_bytes_little_endian_def)
  have li: "from_data_loop (input_from_data example_elements) True
      (replicate (unat (1 :: 64 word)) (input_default example_elements)) ?s2 =
      (True, inputs ?T, ?s3)"
    by (simp add: example_elements_def read_4_bytes_little_endian_def read_little_endian_def)
  have ro: "read_variable_uint_little_endian ?s3 = (1, ?s4)"
    by (simp add: read_variable_uint_little_endian_def read_little_endian_def)
  have co: "unread ?s3 = write_variable_uint_little_endian 1 @ unread ?s4"
    by (simp add: write_variable_uint_little_endian_def)
  have po: "parses_exact (output_from_data example_elements) (output_to_data example_elements)
      (replicate (unat (1 :: 64 word)) (output_default example_elements)) ?s4"
    by (simp add: example_elements_def read_little_endian_def)
  have run: "from_data example_elements ?src transaction_default = Inr (True, ?T, ?s')"
    by (simp add: from_data_def Let_def reset_def transaction_default_def
        read_4_bytes_little_endian_def read_variable_uint_little_endian_def
        read_little_endian_def resize_def example_elements_def)
  have e: "unread ?s' = []" by simp
  have szi: "\<forall>i \<in> set (inputs ?T). input_serialized_size example_elements i =
      of_nat (length (input_to_data example_elements i))"
    by (simp add: example_elements_def)
  have szo: "\<forall>out \<in> set (outputs ?T). output_serialized_size example_elements out =
      of_nat (length (output_to_data example_elements out))"
    by (simp add: example_elements_def)
  from to_data_from_data [where el = example_elements and t = ?T and src = ?src and ver = 1
        and ?s1.0 = ?s1 and n_in = 1 and ?s2.0 = ?s2
        and r_in = True and ins = "inputs ?T" and ?s3.0 = ?s3 and n_out = 1 and ?s4.0 = ?s4
        and ?t0.0 = transaction_default and T = ?T and s' = ?s']
    rv ri ci pi li ro co po run e szi szo
  have "to_data example_elements ?T = unread ?src \<and>
         serialized_size example_elements ?T = of_nat (length (unread ?src))"
    by blast
  then show ?thesis using run by (simp add: from_data_chunk_def)
qed

subsection \<open>Failure\<close>

text \<open>
  A source that announces more inputs than \<open>max_size()\<close> of the vector, here
  \<open>2^64 - 1\<close> of them, makes \<open>inputs.resize\<close> leave \<open>from_data\<close> by an exception, after
  the version has been assigned and before the closing \<open>reset()\<close>.
\<close>

lemma from_data_oversized_count:
  fixes t0 :: "('p, 's) transaction"
  assumes "input_max_size el < 2 ^ 64 - 1"
  shows "from_data el
     \<lparr>unread = [1, 0, 0, 0, 0xFF, 0xFF, 0xFF, 0xFF, 0xFF, 0xFF, 0xFF, 0xFF, 0xFF], good = True\<rparr>
     t0 =
     Inl (length_error,
          \<lparr>version = 1, locktime = 0, inputs = [], outputs = [], sigops_cache = 0,
           hash_cache = None\<rparr>,
          \<lparr>unread = [], good = True\<rparr>)"
  using assms
  by (simp add: from_data_def Let_def reset_def read_4_bytes_little_endian_def
      read_variable_uint_little_endian_def read_little_endian_def resize_def)

text \<open>
  C3. Thirteen bytes: version 1 and the count \<open>2^64 - 1\<close>. The deserialization fails at
  the count; \<open>from_data\<close> does not return false, it is left by \<open>std::length_error\<close>, and
  the transaction keeps the version 1 read from the source: it is not in the reset
  state.
\<close>

theorem from_data_oversized_count_throws:
  "from_data_chunk example_elements
     [1, 0, 0, 0, 0xFF, 0xFF, 0xFF, 0xFF, 0xFF, 0xFF, 0xFF, 0xFF, 0xFF] transaction_default =
     Inl (length_error,
          \<lparr>version = 1, locktime = 0, inputs = [], outputs = [], sigops_cache = 0,
           hash_cache = None\<rparr>) \<and>
   (\<lparr>version = 1, locktime = 0, inputs = [], outputs = [], sigops_cache = 0,
     hash_cache = None\<rparr> :: (unit, unit) transaction) \<noteq> transaction_default"
proof -
  have "input_max_size example_elements < 2 ^ 64 - 1"
    by (simp add: example_elements_def)
  then show ?thesis
    by (simp add: from_data_chunk_def from_data_oversized_count transaction_default_def)
qed

section \<open>Saturating sum of the output values\<close>

lemma sat_step:
  fixes total v :: "64 word"
  shows "unat (if total \<ge> max_uint64 - v then max_uint64 else total + v) =
         min (2 ^ 64 - 1) (unat total + unat v)"
proof -
  have m: "unat max_uint64 = 2 ^ 64 - 1" by (simp add: max_uint64_def)
  have v: "unat v \<le> 2 ^ 64 - 1" using unsigned_less [of v, where ?'a = nat] by simp
  have sub: "unat (max_uint64 - v) = 2 ^ 64 - 1 - unat v"
    using m v by (simp add: unat_sub word_le_nat_alt)
  show ?thesis
  proof (cases "total \<ge> max_uint64 - v")
    case True
    then have "2 ^ 64 - 1 - unat v \<le> unat total" using sub by (simp add: word_le_nat_alt)
    then show ?thesis using True m v by simp
  next
    case False
    then have lt: "unat total < 2 ^ 64 - 1 - unat v" using sub by (simp add: word_le_nat_alt)
    then have "unat total + unat v < 2 ^ 64" by simp
    then have "unat (total + v) = unat total + unat v" using unat_add_lem [of total v] by simp
    then show ?thesis using False lt by simp
  qed
qed

lemma sat_fold:
  "unat (foldl (\<lambda>total out. (let v = value out in if total \<ge> max_uint64 - v then max_uint64 else total + v)) acc xs) =
   min (2 ^ 64 - 1) (unat acc + sum_list (map (\<lambda>out. unat (value out)) xs))"
proof (induction xs arbitrary: acc)
  case Nil
  show ?case using unsigned_less [of acc, where ?'a = nat] by simp
next
  case (Cons x xs)
  show ?case
    unfolding foldl_Cons Let_def
    apply (subst Cons.IH [unfolded Let_def])
    apply (subst sat_step)
    apply (simp add: min_def)
    done
qed

lemma sum_list_take_le:
  fixes f :: "'a \<Rightarrow> nat"
  shows "sum_list (map f (take k xs)) \<le> sum_list (map f xs)"
proof -
  have "sum_list (map f xs) = sum_list (map f (take k xs)) + sum_list (map f (drop k xs))"
    by (metis append_take_drop_id map_append sum_list_append)
  then show ?thesis by simp
qed

text \<open>
  C6. \<open>total_output_value()\<close> is the exact sum of the output values when that sum fits
  in 64 bits, and it is the maximum 64-bit value as soon as the sum of some prefix of the
  outputs exceeds that maximum: the clamp stays through the rest of the fold.
\<close>

theorem total_output_value_saturates:
  "(sum_list (map (\<lambda>out. unat (value out)) (outputs t)) \<le> 2 ^ 64 - 1 \<longrightarrow>
      unat (total_output_value t) = sum_list (map (\<lambda>out. unat (value out)) (outputs t))) \<and>
   (\<forall>k. sum_list (map (\<lambda>out. unat (value out)) (take k (outputs t))) > 2 ^ 64 - 1 \<longrightarrow>
      total_output_value t = max_uint64)"
proof (intro conjI allI impI)
  assume "sum_list (map (\<lambda>out. unat (value out)) (outputs t)) \<le> 2 ^ 64 - 1"
  then show "unat (total_output_value t) = sum_list (map (\<lambda>out. unat (value out)) (outputs t))"
    unfolding total_output_value_def by (simp add: sat_fold)
next
  fix k
  assume "sum_list (map (\<lambda>out. unat (value out)) (take k (outputs t))) > 2 ^ 64 - 1"
  then have "sum_list (map (\<lambda>out. unat (value out)) (outputs t)) > 2 ^ 64 - 1"
    using sum_list_take_le [of "\<lambda>out. unat (value out)" k "outputs t"] by linarith
  moreover have "unat max_uint64 = 2 ^ 64 - 1" by (simp add: max_uint64_def)
  ultimately have "unat (total_output_value t) = unat max_uint64"
    unfolding total_output_value_def by (simp add: sat_fold)
  then show "total_output_value t = max_uint64" by (simp only: word_unat_eq_iff)
qed

text \<open>
  Outputs of 3 and 4 add up to 7; outputs of \<open>2^64 - 1\<close>, 1 and 5 overflow at the second
  output and the total is the maximum.
\<close>

theorem total_output_value_saturates_witness:
  "unat (total_output_value
     (transaction_init 1 0 [] [\<lparr>value = 3, script = ()\<rparr>, \<lparr>value = 4, script = ()\<rparr>]
        :: (unit, unit) transaction)) = 7 \<and>
   total_output_value
     (transaction_init 1 0 []
        [\<lparr>value = 0xFFFFFFFFFFFFFFFF, script = ()\<rparr>, \<lparr>value = 1, script = ()\<rparr>,
         \<lparr>value = 5, script = ()\<rparr>]
        :: (unit, unit) transaction) = 0xFFFFFFFFFFFFFFFF"
proof -
  let ?a = "transaction_init 1 0 [] [\<lparr>value = 3, script = ()\<rparr>, \<lparr>value = 4, script = ()\<rparr>]
        :: (unit, unit) transaction"
  let ?b = "transaction_init 1 0 []
        [\<lparr>value = 0xFFFFFFFFFFFFFFFF, script = ()\<rparr>, \<lparr>value = 1, script = ()\<rparr>,
         \<lparr>value = 5, script = ()\<rparr>]
        :: (unit, unit) transaction"
  have a: "sum_list (map (\<lambda>out. unat (value out)) (outputs ?a)) = 7"
    by (simp add: transaction_init_def)
  have b: "sum_list (map (\<lambda>out. unat (value out)) (take 2 (outputs ?b))) = 2 ^ 64"
    by (simp add: transaction_init_def)
  from total_output_value_saturates [of ?a] a
  have "unat (total_output_value ?a) = 7" by simp
  moreover have gt: "sum_list (map (\<lambda>out. unat (value out)) (take 2 (outputs ?b))) > 2 ^ 64 - 1"
    unfolding b by simp
  from total_output_value_saturates [of ?b, THEN conjunct2, rule_format, OF gt]
  have "total_output_value ?b = max_uint64" .
  ultimately show ?thesis by (simp add: max_uint64_def)
qed

section \<open>Finality\<close>

lemma inputs_final_iff: "inputs_final xs \<longleftrightarrow> list_all input_is_final xs"
  by (induction xs) auto

text \<open>
  With a threshold of 500000000, a locktime of 5 is a block height. At the height \<open>2^32\<close>
  the locktime is below the height, so the rule as worded makes the transaction final;
  the code compares with the low 32 bits of the height, which are 0, and goes on to the
  inputs, where the only input is not final.
\<close>

theorem is_final_height_counterexample:
  "is_final 500000000
     (transaction_init 1 5 [\<lparr>previous_output = (), script = (), sequence = 0\<rparr>] []
        :: (unit, unit) transaction) 0x100000000 0 = False \<and>
   is_final_spec 500000000
     (transaction_init 1 5 [\<lparr>previous_output = (), script = (), sequence = 0\<rparr>] []
        :: (unit, unit) transaction) 0x100000000 0 = True"
  by (simp add: is_final_def is_final_spec_def input_is_final_def max_input_sequence_def
      transaction_init_def)

text \<open>
  C4, amended. \<open>is_final\<close> is true when the locktime is 0; otherwise the basis is the
  low 32 bits of \<open>block_height\<close> when the locktime is below the threshold and
  \<open>block_time\<close> when it is not, the result is true when the locktime is strictly below
  the basis, and otherwise it is true exactly when every input is final. For a height
  below \<open>2^32\<close> this is the rule with the height itself as the basis.
\<close>

theorem is_final_truncated_height:
  "(is_final locktime_threshold t block_height block_time \<longleftrightarrow>
      locktime t = 0 \<or>
      locktime t <
        (if locktime t < locktime_threshold then ucast block_height else block_time) \<or>
      list_all input_is_final (inputs t)) \<and>
   (unat block_height < 2 ^ 32 \<longrightarrow>
      is_final locktime_threshold t block_height block_time =
      is_final_spec locktime_threshold t block_height block_time)"
proof (intro conjI impI)
  show "is_final locktime_threshold t block_height block_time \<longleftrightarrow>
      locktime t = 0 \<or>
      locktime t <
        (if locktime t < locktime_threshold then ucast block_height else block_time) \<or>
      list_all input_is_final (inputs t)"
    by (simp add: is_final_def inputs_final_iff)
next
  assume h: "unat block_height < 2 ^ 32"
  have "unat (ucast block_height :: 32 word) = unat block_height"
    using h by (simp add: unsigned_ucast_eq take_bit_nat_eq_self)
  then have "locktime t < (ucast block_height :: 32 word) \<longleftrightarrow>
      unat (locktime t) < unat block_height"
    by (simp add: word_less_nat_alt)
  then show "is_final locktime_threshold t block_height block_time =
      is_final_spec locktime_threshold t block_height block_time"
    by (simp add: is_final_def is_final_spec_def inputs_final_iff)
qed

text \<open>
  At height 400000 a locktime of 399999 has passed: the transaction is final although
  its input is not, under both readings of the rule.
\<close>

theorem is_final_truncated_height_witness:
  "unat (400000 :: 64 word) < 2 ^ 32 \<and>
   is_final 500000000
     (transaction_init 1 399999 [\<lparr>previous_output = (), script = (), sequence = 0\<rparr>] []
        :: (unit, unit) transaction) 400000 0 =
   is_final_spec 500000000
     (transaction_init 1 399999 [\<lparr>previous_output = (), script = (), sequence = 0\<rparr>] []
        :: (unit, unit) transaction) 400000 0 \<and>
   is_final 500000000
     (transaction_init 1 399999 [\<lparr>previous_output = (), script = (), sequence = 0\<rparr>] []
        :: (unit, unit) transaction) 400000 0"
proof -
  let ?t = "transaction_init 1 399999 [\<lparr>previous_output = (), script = (), sequence = 0\<rparr>] []
        :: (unit, unit) transaction"
  have h: "unat (400000 :: 64 word) < 2 ^ 32" by simp
  have l: "locktime ?t <
      (if locktime ?t < 500000000 then ucast (400000 :: 64 word) else (0 :: 32 word))"
    by (simp add: transaction_init_def)
  note inst = is_final_truncated_height [of 500000000 ?t 400000 0]
  from inst h have "is_final 500000000 ?t 400000 0 = is_final_spec 500000000 ?t 400000 0"
    by blast
  moreover from inst l have "is_final 500000000 ?t 400000 0" by blast
  ultimately show ?thesis using h by blast
qed

section \<open>Signature operations\<close>

text \<open>
  Whatever the scripts count, the function returns the field \<open>sigops_\<close>, which every
  constructor sets to 0.
\<close>

lemma signature_operations_returns_cache:
  "signature_operations script_signature_operations t = sigops_cache t"
  by (simp add: signature_operations_def Let_def)

text \<open>
  C1. A transaction built by the constructor from one input whose script counts one
  signature operation and one output whose script counts two: the saturating sum over
  the scripts is 3, and \<open>signature_operations()\<close> returns 0, the value of \<open>sigops_\<close>.
  (The script is modelled by its count, which \<open>script::signature_operations\<close> returns.)
\<close>

theorem signature_operations_discards_sum:
  "signature_operations (\<lambda>s embedded. s)
     (transaction_init 1 0 [\<lparr>previous_output = (), script = 1, sequence = 0xFFFFFFFF\<rparr>]
        [\<lparr>value = 50, script = 2\<rparr>]) = 0 \<and>
   signature_operations_spec (\<lambda>s embedded. s)
     (transaction_init 1 0 [\<lparr>previous_output = (), script = 1, sequence = 0xFFFFFFFF\<rparr>]
        [\<lparr>value = 50, script = 2\<rparr>]) = 3"
  by (simp add: signature_operations_def signature_operations_spec_def transaction_init_def
      sigops_in_def sigops_out_def max_size_t_def word_le_nat_alt)

section \<open>Move assignment and the cached hash\<close>

text \<open>
  C9. Move assignment gives the destination the version, locktime, inputs and outputs of
  the source and leaves its cached hash and cached count as they were; a hash cached
  on the destination before the assignment is what \<open>hash()\<close> returns afterwards.
\<close>

theorem move_assign_keeps_caches:
  "version (move_assign this other) = version other \<and>
   locktime (move_assign this other) = locktime other \<and>
   inputs (move_assign this other) = inputs other \<and>
   outputs (move_assign this other) = outputs other \<and>
   hash_cache (move_assign this other) = hash_cache this \<and>
   sigops_cache (move_assign this other) = sigops_cache this \<and>
   (hash_cache this = Some h \<longrightarrow>
      hash bitcoin_hash el (move_assign this other) = (h, move_assign this other))"
  by (simp add: move_assign_def hash_def)

text \<open>
  The destination has cached, as its hash, its own ten bytes (the digest function here
  is the identity). After the assignment it serializes to other bytes, and \<open>hash()\<close>
  still returns the old ones.
\<close>

theorem move_assign_keeps_caches_witness:
  "hash (\<lambda>data. data) example_elements
     (move_assign
        \<lparr>version = 1, locktime = 0, inputs = [], outputs = [], sigops_cache = 0,
         hash_cache = Some [1, 0, 0, 0, 0, 0, 0, 0, 0, 0]\<rparr>
        (transaction_init 2 9 [] [])) =
     ([1, 0, 0, 0, 0, 0, 0, 0, 0, 0],
      \<lparr>version = 2, locktime = 9, inputs = [], outputs = [], sigops_cache = 0,
       hash_cache = Some [1, 0, 0, 0, 0, 0, 0, 0, 0, 0]\<rparr>) \<and>
   to_data example_elements
     \<lparr>version = 2, locktime = 9, inputs = [], outputs = [], sigops_cache = 0,
      hash_cache = Some [1, 0, 0, 0, 0, 0, 0, 0, 0, 0]\<rparr> = [2, 0, 0, 0, 0, 0, 9, 0, 0, 0]"
proof -
  let ?dst = "\<lparr>version = 1, locktime = 0, inputs = [], outputs = [], sigops_cache = 0,
         hash_cache = Some [1, 0, 0, 0, 0, 0, 0, 0, 0, 0]\<rparr> :: (unit, unit) transaction"
  let ?src = "transaction_init 2 9 [] [] :: (unit, unit) transaction"
  have c: "hash_cache ?dst = Some [1, 0, 0, 0, 0, 0, 0, 0, 0, 0]" by simp
  have m: "move_assign ?dst ?src =
      \<lparr>version = 2, locktime = 9, inputs = [], outputs = [], sigops_cache = 0,
       hash_cache = Some [1, 0, 0, 0, 0, 0, 0, 0, 0, 0]\<rparr>"
    by (simp add: move_assign_def transaction_init_def)
  from move_assign_keeps_caches [of ?dst ?src "[1, 0, 0, 0, 0, 0, 0, 0, 0, 0]"
      "\<lambda>data. data" example_elements] c
  have "hash (\<lambda>data. data) example_elements (move_assign ?dst ?src) =
      ([1, 0, 0, 0, 0, 0, 0, 0, 0, 0], move_assign ?dst ?src)"
    by blast
  moreover have "to_data example_elements
     \<lparr>version = 2, locktime = 9, inputs = [], outputs = [], sigops_cache = 0,
      hash_cache = Some [1, 0, 0, 0, 0, 0, 0, 0, 0, 0]\<rparr> = [2, 0, 0, 0, 0, 0, 9, 0, 0, 0]"
    by (simp add: to_data_def write_4_bytes_little_endian_def
        write_variable_uint_little_endian_def)
  ultimately show ?thesis by (simp only: m) 
qed

section \<open>Payment addresses: equality and hash-table key\<close>

lemma address_buffer_eq:
  assumes "length (addr_hash a) = short_hash_size"
  shows "address_buffer a = addr_version a # addr_hash a"
proof -
  have "string_resize [] (short_hash_size + 1) (0 :: byte) = 0 # replicate short_hash_size 0"
    by (simp add: string_resize_def)
  then show ?thesis
    using assms by (simp add: address_buffer_def Let_def copy_def)
qed

text \<open>
  C5. Two addresses are equal exactly when they have the same version and the same hash;
  the buffer that the \<open>std::hash\<close> adapter hashes is the version byte followed by the 20
  bytes of the hash, so that two addresses are equal exactly when their buffers are, and
  equal addresses get the same key, whatever their \<open>valid_\<close> flags are.
\<close>

theorem address_equality_hash_projection:
  assumes "length (addr_hash a) = short_hash_size" and "length (addr_hash b) = short_hash_size"
  shows "(payment_address_eq a b \<longleftrightarrow>
            addr_version a = addr_version b \<and> addr_hash a = addr_hash b) \<and>
         address_buffer a = addr_version a # addr_hash a \<and>
         std_hash functor a = functor (addr_version a # addr_hash a) \<and>
         (payment_address_eq a b \<longleftrightarrow> address_buffer a = address_buffer b) \<and>
         (payment_address_eq a b \<longrightarrow> std_hash functor a = std_hash functor b)"
  using assms by (auto simp add: address_buffer_eq payment_address_eq_def std_hash_def)

text \<open>
  Two addresses with version 5 and the same hash, one valid and one not (the string hash
  here is the length of the string).
\<close>

theorem address_equality_hash_projection_witness:
  "payment_address_eq
     \<lparr>addr_valid = True, addr_version = 5, addr_hash = replicate 20 0x11\<rparr>
     \<lparr>addr_valid = False, addr_version = 5, addr_hash = replicate 20 0x11\<rparr> \<and>
   std_hash (\<lambda>buffer. of_nat (length buffer))
     \<lparr>addr_valid = True, addr_version = 5, addr_hash = replicate 20 0x11\<rparr> =
   std_hash (\<lambda>buffer. of_nat (length buffer))
     \<lparr>addr_valid = False, addr_version = 5, addr_hash = replicate 20 0x11\<rparr>"
proof -
  let ?a = "\<lparr>addr_valid = True, addr_version = 5, addr_hash = replicate 20 0x11\<rparr>"
  let ?b = "\<lparr>addr_valid = False, addr_version = 5, addr_hash = replicate 20 0x11\<rparr>"
  have la: "length (addr_hash ?a) = short_hash_size" by (simp add: short_hash_size_def)
  have lb: "length (addr_hash ?b) = short_hash_size" by (simp add: short_hash_size_def)
  have v: "addr_version ?a = addr_version ?b \<and> addr_hash ?a = addr_hash ?b" by simp
  from address_equality_hash_projection [OF la lb, of "\<lambda>buffer. of_nat (length buffer)"] v
  show ?thesis by blast
qed

end
